theory Spec2Isabelle
  imports Main "HOL-Library.Word"
begin

unbundle bit_operations_syntax

section \<open>Record model\<close>

text \<open>
  The filters of \<^verbatim>\<open>sam/simple-filters.go\<close> work on a \<^verbatim>\<open>Header\<close> and on
  \<^verbatim>\<open>Alignment\<close> records. Both types, \<^verbatim>\<open>utils.StringMap\<close>, \<^verbatim>\<open>utils.Find\<close> and the
  setters \<^verbatim>\<open>SetHD_SO\<close>, \<^verbatim>\<open>SetRG\<close>, \<^verbatim>\<open>SetREFID\<close> are declared in other files of the
  repository; they are modelled here from section 3 of the specification and from the
  way the filters use them.
\<close>

text \<open>
  Modelled from the spec: the type \<^verbatim>\<open>utils.StringMap\<close> is not part of the given
  sources. It is a mapping of tag name to value, a Go \<^verbatim>\<open>map[string]string\<close>. Reading a
  key that is absent gives the empty string; the two-valued read
  \<^verbatim>\<open>v, found := m[k]\<close> is the map itself.
\<close>

type_synonym StringMap = "string \<rightharpoonup> string"

definition sm_get :: "StringMap \<Rightarrow> string \<Rightarrow> string" where
  "sm_get m k = (case m k of None \<Rightarrow> [] | Some v \<Rightarrow> v)"

text \<open>
  Go maps are reference values: the entries of \<^verbatim>\<open>header.SQ\<close> and \<^verbatim>\<open>header.PG\<close> are
  shared objects, and \<^verbatim>\<open>RenameChromosomes\<close> and \<^verbatim>\<open>AddPGLine\<close> update such an object in
  place. An entry is therefore an address into a store of map objects, and a slice of
  \<^verbatim>\<open>utils.StringMap\<close> is a list of addresses.
\<close>

type_synonym addr = nat
type_synonym store = "addr \<Rightarrow> StringMap"

text \<open>
  Modelled from the spec: the type \<^verbatim>\<open>Header\<close> is not part of the given sources. Its
  fields are those of section 3 of the specification: the \<^verbatim>\<open>HD\<close> tags, the ordered
  records \<^verbatim>\<open>SQ\<close>, \<^verbatim>\<open>RG\<close> and \<^verbatim>\<open>PG\<close>, and the user records.
\<close>

record Header =
  HD :: StringMap
  SQ :: "addr list"
  RG :: "addr list"
  PG :: "addr list"
  UserRecords :: "string \<rightharpoonup> addr list"

text \<open>
  Modelled from the spec: the type \<^verbatim>\<open>Alignment\<close>, the type of its \<^verbatim>\<open>TAGS\<close> and the
  lookup \<^verbatim>\<open>TAGS.Get\<close> are not part of the given sources. \<^verbatim>\<open>TAGS\<close> is a mapping from
  an interned tag key to a typed value (\<^verbatim>\<open>interface{}\<close> in the source, of which the
  exactness filter asserts the dynamic type \<^verbatim>\<open>int32\<close>); \<^verbatim>\<open>Get\<close> is the two-valued
  lookup. An interned key is modelled by its string. \<^verbatim>\<open>REFID\<close> is the transient index
  that \<^verbatim>\<open>AddREFID\<close> assigns.
\<close>

datatype tag_value =
    VInt32 "32 word"
  | VChar char
  | VFloat32 "32 word"
  | VString string
  | VByteArray "8 word list"

record Alignment =
  FLAG :: "16 word"
  POS :: "32 word"
  RNAME :: string
  RNEXT :: string
  CIGAR :: string
  TAGS :: "string \<rightharpoonup> tag_value"
  REFID :: "32 word"

text \<open>
  What a returned \<^verbatim>\<open>AlignmentFilter\<close> closure can reach besides the alignment it is
  given: the store of map objects, the header, and the variables it captured during the
  header phase. An alignment filter takes this shared state and an alignment and returns
  the shared state, the alignment and the inclusion decision.
\<close>

record 'e shared =
  sh_store :: store
  sh_header :: Header
  sh_env :: 'e

datatype error = TypeAssertionPanic

section \<open>Helpers declared outside the filter file\<close>

text \<open>
  Modelled from the spec: \<^verbatim>\<open>utils.Find\<close> is not part of the given sources. It is used
  as the position of the first record of a slice that satisfies a predicate (the
  "prior index" of a sequence name), and \<^verbatim>\<open>-1\<close> when no record does.
\<close>

fun Find_from :: "int \<Rightarrow> StringMap list \<Rightarrow> (StringMap \<Rightarrow> bool) \<Rightarrow> int" where
  "Find_from index [] predicate = - 1"
| "Find_from index (record # dict) predicate =
     (if predicate record then index else Find_from (index + 1) dict predicate)"

definition Find :: "StringMap list \<Rightarrow> (StringMap \<Rightarrow> bool) \<Rightarrow> int" where
  "Find dict predicate = Find_from 0 dict predicate"

text \<open>
  Modelled from the spec: \<^verbatim>\<open>Header.SetHD_SO\<close> is not part of the given sources. The
  spec describes its effect as setting the sort-order tag \<^verbatim>\<open>SO\<close> of \<^verbatim>\<open>HD\<close>.
\<close>

definition SetHD_SO :: "Header \<Rightarrow> string \<Rightarrow> Header" where
  "SetHD_SO header v = header\<lparr>HD := (HD header)(''SO'' \<mapsto> v)\<rparr>"

text \<open>
  Modelled from the spec: \<^verbatim>\<open>Alignment.SetRG\<close> and \<^verbatim>\<open>Alignment.SetREFID\<close> are not part
  of the given sources. The first stamps the alignment with a read group identifier
  (the \<^verbatim>\<open>RG\<close> optional field), the second assigns the transient \<^verbatim>\<open>REFID\<close>.
\<close>

definition SetRG :: "Alignment \<Rightarrow> string \<Rightarrow> Alignment" where
  "SetRG aln rg = aln\<lparr>TAGS := (TAGS aln)(''RG'' \<mapsto> VString rg)\<rparr>"

definition SetREFID :: "Alignment \<Rightarrow> 32 word \<Rightarrow> Alignment" where
  "SetREFID aln v = aln\<lparr>REFID := v\<rparr>"

section \<open>Replacing the reference sequence dictionary\<close>

text \<open>
  The sort-order loop of \<^verbatim>\<open>ReplaceReferenceSequenceDictionary\<close>: \<open>oldDict\<close> is the old
  dictionary, \<open>previousPos\<close> the position of the last matched name, the list is what
  is left of \<^verbatim>\<open>dict\<close>. The \<^verbatim>\<open>break\<close> is the branch without a recursive call.
\<close>

fun check_sorting_order ::
  "StringMap list \<Rightarrow> int \<Rightarrow> StringMap list \<Rightarrow> Header \<Rightarrow> Header" where
  "check_sorting_order oldDict previousPos [] header = header"
| "check_sorting_order oldDict previousPos (entry # dict) header =
     (let sn = sm_get entry ''SN'';
          pos = Find oldDict (\<lambda>entry. sm_get entry ''SN'' = sn)
      in if pos \<ge> 0 then
           (if pos > previousPos then check_sorting_order oldDict pos dict header
            else SetHD_SO header ''unknown'')
         else check_sorting_order oldDict previousPos dict header)"

fun make_dictTable :: "StringMap list \<Rightarrow> (string \<rightharpoonup> bool) \<Rightarrow> (string \<rightharpoonup> bool)" where
  "make_dictTable [] dictTable = dictTable"
| "make_dictTable (entry # dict) dictTable =
     make_dictTable dict (dictTable(sm_get entry ''SN'' \<mapsto> True))"

text \<open>
  The header phase returns the updated header and the captured \<^verbatim>\<open>dictTable\<close>. The
  store is only read.
\<close>

definition ReplaceReferenceSequenceDictionary ::
  "addr list \<Rightarrow> store \<Rightarrow> Header \<Rightarrow> Header \<times> (string \<rightharpoonup> bool)" where
  "ReplaceReferenceSequenceDictionary dict st header =
     (let header1 =
            (if sm_get (HD header) ''SO'' = ''coordinate''
             then check_sorting_order (map st (SQ header)) (- 1) (map st dict) header
             else header);
          dictTable = make_dictTable (map st dict) Map.empty
      in (header1\<lparr>SQ := dict\<rparr>, dictTable))"

text \<open>Reading a Go \<^verbatim>\<open>map[string]bool\<close> at an absent key gives \<^verbatim>\<open>false\<close>.\<close>

definition ReplaceReferenceSequenceDictionary_aln ::
  "(string \<rightharpoonup> bool) shared \<Rightarrow> Alignment \<Rightarrow> (string \<rightharpoonup> bool) shared \<times> Alignment \<times> bool" where
  "ReplaceReferenceSequenceDictionary_aln sh aln =
     (sh, aln, (case sh_env sh (RNAME aln) of None \<Rightarrow> False | Some b \<Rightarrow> b))"

section \<open>Predicate filters\<close>

text \<open>
  The bit masks \<^verbatim>\<open>Unmapped\<close> and \<^verbatim>\<open>Duplicate\<close> are constants declared outside the
  filter file; the filters take the mask as a parameter. None of these filters touches
  the header during the header phase.
\<close>

definition FilterUnmappedReads_aln ::
  "16 word \<Rightarrow> 'e shared \<Rightarrow> Alignment \<Rightarrow> 'e shared \<times> Alignment \<times> bool" where
  "FilterUnmappedReads_aln Unmapped sh aln = (sh, aln, (FLAG aln AND Unmapped) = 0)"

definition FilterUnmappedReadsStrict_aln ::
  "16 word \<Rightarrow> 'e shared \<Rightarrow> Alignment \<Rightarrow> 'e shared \<times> Alignment \<times> bool" where
  "FilterUnmappedReadsStrict_aln Unmapped sh aln =
     (sh, aln, ((FLAG aln AND Unmapped) = 0) \<and> (POS aln \<noteq> 0) \<and> (RNAME aln \<noteq> ''*''))"

text \<open>\<^verbatim>\<open>strings.ContainsAny\<close> of the Go library, for a set of ASCII characters.\<close>

definition ContainsAny :: "string \<Rightarrow> string \<Rightarrow> bool" where
  "ContainsAny s chars = list_ex (\<lambda>c. c \<in> set chars) s"

definition FilterNonExactMappingReads_aln ::
  "'e shared \<Rightarrow> Alignment \<Rightarrow> 'e shared \<times> Alignment \<times> bool" where
  "FilterNonExactMappingReads_aln sh aln = (sh, aln, \<not> ContainsAny (CIGAR aln) ''IDNHPX='')"

text \<open>The interned symbols of the optional fields.\<close>

definition X0 :: string where "X0 = ''X0''"
definition X1 :: string where "X1 = ''X1''"
definition XM :: string where "XM = ''XM''"
definition XO :: string where "XO = ''XO''"
definition XG :: string where "XG = ''XG''"

text \<open>
  One guard of the strict exactness filter,
  \<^verbatim>\<open>x, ok := aln.TAGS.Get(key); !ok || x.(int32) != v\<close>: the type assertion is only
  evaluated when the tag is present, and panics on a value that is not an \<^verbatim>\<open>int32\<close>.
\<close>

definition tag_differs :: "Alignment \<Rightarrow> string \<Rightarrow> 32 word \<Rightarrow> error + bool" where
  "tag_differs aln key v =
     (case TAGS aln key of
        None \<Rightarrow> Inr True
      | Some (VInt32 x) \<Rightarrow> Inr (x \<noteq> v)
      | Some _ \<Rightarrow> Inl TypeAssertionPanic)"

definition FilterNonExactMappingReadsStrict_aln ::
  "'e shared \<Rightarrow> Alignment \<Rightarrow> error + ('e shared \<times> Alignment \<times> bool)" where
  "FilterNonExactMappingReadsStrict_aln sh aln =
     (case tag_differs aln X0 1 of Inl e \<Rightarrow> Inl e | Inr d0 \<Rightarrow>
      if d0 then Inr (sh, aln, False) else
     (case tag_differs aln X1 0 of Inl e \<Rightarrow> Inl e | Inr d1 \<Rightarrow>
      if d1 then Inr (sh, aln, False) else
     (case tag_differs aln XM 0 of Inl e \<Rightarrow> Inl e | Inr d2 \<Rightarrow>
      if d2 then Inr (sh, aln, False) else
     (case tag_differs aln XO 0 of Inl e \<Rightarrow> Inl e | Inr d3 \<Rightarrow>
      if d3 then Inr (sh, aln, False) else
     (case tag_differs aln XG 0 of Inl e \<Rightarrow> Inl e | Inr d4 \<Rightarrow>
      if d4 then Inr (sh, aln, False) else Inr (sh, aln, True))))))"

definition FilterDuplicateReads_aln ::
  "16 word \<Rightarrow> 'e shared \<Rightarrow> Alignment \<Rightarrow> 'e shared \<times> Alignment \<times> bool" where
  "FilterDuplicateReads_aln Duplicate sh aln = (sh, aln, (FLAG aln AND Duplicate) = 0)"

text \<open>
  \<^verbatim>\<open>FilterOptionalReads\<close> deletes the \<^verbatim>\<open>@sr\<close> user record during the header phase
  and returns a filter only when it was there (the boolean; \<^verbatim>\<open>nil\<close> otherwise).
\<close>

definition FilterOptionalReads :: "Header \<Rightarrow> Header \<times> bool" where
  "FilterOptionalReads header =
     (case UserRecords header ''@sr'' of
        Some _ \<Rightarrow> (header\<lparr>UserRecords := (UserRecords header)(''@sr'' := None)\<rparr>, True)
      | None \<Rightarrow> (header, False))"

definition FilterOptionalReads_aln ::
  "'e shared \<Rightarrow> Alignment \<Rightarrow> 'e shared \<times> Alignment \<times> bool" where
  "FilterOptionalReads_aln sh aln = (sh, aln, TAGS aln ''sr'' = None)"

section \<open>Read groups\<close>

text \<open>The header phase captures \<^verbatim>\<open>id := readGroup["ID"]\<close>.\<close>

definition AddOrReplaceReadGroup :: "addr \<Rightarrow> store \<Rightarrow> Header \<Rightarrow> Header \<times> string" where
  "AddOrReplaceReadGroup readGroup st header =
     (header\<lparr>RG := [readGroup]\<rparr>, sm_get (st readGroup) ''ID'')"

definition AddOrReplaceReadGroup_aln ::
  "string shared \<Rightarrow> Alignment \<Rightarrow> string shared \<times> Alignment \<times> bool" where
  "AddOrReplaceReadGroup_aln sh aln = (sh, SetRG aln (sh_env sh), True)"

section \<open>Program records\<close>

text \<open>
  \<^verbatim>\<open>strconv.FormatInt(i, 16)\<close> of the Go library: the digits of \<open>i\<close> in base 16,
  lower case, without padding, with a minus sign for a negative number.
\<close>

definition hex_digit :: "nat \<Rightarrow> char" where
  "hex_digit d = ''0123456789abcdef'' ! d"

fun hex_digits :: "nat \<Rightarrow> string" where
  "hex_digits n =
     (if n < 16 then [hex_digit n] else hex_digits (n div 16) @ [hex_digit (n mod 16)])"

definition FormatInt16 :: "int \<Rightarrow> string" where
  "FormatInt16 i = (if i < 0 then CHR ''-'' # hex_digits (nat (- i)) else hex_digits (nat i))"

text \<open>
  Facts about \<open>Find\<close> and \<open>FormatInt16\<close> that the termination of the identifier loop
  rests on.
\<close>

lemma Find_from_eq:
  "Find_from i dict p =
     (if \<exists>x\<in>set dict. p x then i + int (length (takeWhile (\<lambda>x. \<not> p x) dict)) else - 1)"
  by (induction dict arbitrary: i) auto

lemma Find_eq:
  "Find dict p =
     (if \<exists>x\<in>set dict. p x then int (length (takeWhile (\<lambda>x. \<not> p x) dict)) else - 1)"
  by (simp add: Find_def Find_from_eq)

lemma Find_nonneg_iff: "Find dict p \<ge> 0 \<longleftrightarrow> (\<exists>x\<in>set dict. p x)"
  by (simp add: Find_eq)

lemma hex_digits_nonempty: "hex_digits n \<noteq> []"
  by (subst hex_digits.simps) simp

lemma FormatInt16_nonempty: "FormatInt16 i \<noteq> []"
  by (simp add: FormatInt16_def hex_digits_nonempty)

lemma colliding_id_length:
  assumes "Find pgs (\<lambda>entry. sm_get entry ''ID'' = id') \<ge> 0"
  shows "length id' \<le> sum_list (map (\<lambda>entry. length (sm_get entry ''ID'')) pgs)"
proof -
  from assms obtain e where e: "e \<in> set pgs" "sm_get e ''ID'' = id'"
    by (auto simp: Find_nonneg_iff)
  then have "length (sm_get e ''ID'') \<in> set (map (\<lambda>entry. length (sm_get entry ''ID'')) pgs)"
    by force
  then have "length (sm_get e ''ID'') \<le> sum_list (map (\<lambda>entry. length (sm_get entry ''ID'')) pgs)"
    by (simp add: member_le_sum_list)
  with e show ?thesis by simp
qed

text \<open>
  The collision loop of \<^verbatim>\<open>AddPGLine\<close>. \<open>rnd k\<close> is the value that the \<open>k\<close>-th call of
  \<^verbatim>\<open>rand.Int63n(0x10000)\<close> returns. The loop always ends: a colliding candidate is no
  longer than the identifiers of \<open>pgs\<close>, and every round makes it longer.
\<close>

function unique_id :: "StringMap list \<Rightarrow> (nat \<Rightarrow> nat) \<Rightarrow> nat \<Rightarrow> string \<Rightarrow> string" where
  "unique_id pgs rnd k id' =
     (if Find pgs (\<lambda>entry. sm_get entry ''ID'' = id') \<ge> 0
      then unique_id pgs rnd (Suc k) (id' @ FormatInt16 (int (rnd k)))
      else id')"
  by pat_completeness auto
termination
proof (relation "measure (\<lambda>(pgs, rnd, k, id').
         Suc (sum_list (map (\<lambda>entry. length (sm_get entry ''ID'')) pgs)) - length id')")
  show "wf (measure (\<lambda>(pgs, rnd, k, id').
         Suc (sum_list (map (\<lambda>entry. length (sm_get entry ''ID'')) pgs)) - length id'))"
    by simp
next
  fix pgs :: "StringMap list" and rnd :: "nat \<Rightarrow> nat" and k :: nat and id' :: string
  assume c: "0 \<le> Find pgs (\<lambda>entry. sm_get entry ''ID'' = id')"
  have "length id' < length (id' @ FormatInt16 (int (rnd k)))"
    by (simp add: FormatInt16_nonempty)
  with colliding_id_length [OF c]
  show "((pgs, rnd, Suc k, id' @ FormatInt16 (int (rnd k))), (pgs, rnd, k, id'))
        \<in> measure (\<lambda>(pgs, rnd, k, id').
         Suc (sum_list (map (\<lambda>entry. length (sm_get entry ''ID'')) pgs)) - length id')"
    by (simp only: in_measure prod.case)
qed

declare unique_id.simps [simp del]

text \<open>
  The tail loop of \<^verbatim>\<open>AddPGLine\<close>: \<open>allPG\<close> is \<^verbatim>\<open>header.PG\<close>, the list is what is left
  to scan. The only write, \<^verbatim>\<open>newPG["PP"] = nextID\<close>, goes to the object \<open>newPG\<close>.
\<close>

fun set_PP :: "StringMap list \<Rightarrow> StringMap list \<Rightarrow> addr \<Rightarrow> store \<Rightarrow> store" where
  "set_PP allPG [] newPG st = st"
| "set_PP allPG (pg # rest) newPG st =
     (let nextID = sm_get pg ''ID'' in
      if Find allPG (\<lambda>entry. sm_get entry ''PP'' = nextID) < 0
      then st(newPG := (st newPG)(''PP'' \<mapsto> nextID))
      else set_PP allPG rest newPG st)"

text \<open>
  \<^verbatim>\<open>AddPGLine\<close> returns no alignment filter. The value of \<^verbatim>\<open>id\<close> after the collision
  loop is not read again in the source: it is neither stored in \<^verbatim>\<open>newPG\<close> nor in the
  header.
\<close>

definition AddPGLine :: "addr \<Rightarrow> (nat \<Rightarrow> nat) \<Rightarrow> store \<Rightarrow> Header \<Rightarrow> store \<times> Header" where
  "AddPGLine newPG rnd st header =
     (let id' = unique_id (map st (PG header)) rnd 0 (sm_get (st newPG) ''ID'');
          st1 = set_PP (map st (PG header)) (map st (PG header)) newPG st
      in (st1, header\<lparr>PG := PG header @ [newPG]\<rparr>))"

section \<open>Renaming chromosomes\<close>

text \<open>
  The header loop of \<^verbatim>\<open>RenameChromosomes\<close> updates each entry of \<^verbatim>\<open>header.SQ\<close> in
  place; the header itself is not assigned to.
\<close>

fun rename_SQ :: "addr list \<Rightarrow> store \<Rightarrow> store" where
  "rename_SQ [] st = st"
| "rename_SQ (entry # rest) st =
     (case st entry ''SN'' of
        Some sn \<Rightarrow> rename_SQ rest (st(entry := (st entry)(''SN'' \<mapsto> ''chr'' @ sn)))
      | None \<Rightarrow> rename_SQ rest st)"

definition RenameChromosomes :: "store \<Rightarrow> Header \<Rightarrow> store" where
  "RenameChromosomes st header = rename_SQ (SQ header) st"

definition RenameChromosomes_aln ::
  "'e shared \<Rightarrow> Alignment \<Rightarrow> 'e shared \<times> Alignment \<times> bool" where
  "RenameChromosomes_aln sh aln =
     (let aln1 = (if (RNAME aln \<noteq> ''='') \<and> (RNAME aln \<noteq> ''*'')
                  then aln\<lparr>RNAME := ''chr'' @ RNAME aln\<rparr> else aln);
          aln2 = (if (RNEXT aln1 \<noteq> ''='') \<and> (RNEXT aln1 \<noteq> ''*'')
                  then aln1\<lparr>RNEXT := ''chr'' @ RNEXT aln1\<rparr> else aln1)
      in (sh, aln2, True))"

section \<open>Reference identifiers\<close>

text \<open>
  The table loop of \<^verbatim>\<open>AddREFID\<close>; \<^verbatim>\<open>int32(index)\<close> keeps the low 32 bits of the
  index.
\<close>

fun make_refid_table ::
  "nat \<Rightarrow> StringMap list \<Rightarrow> (string \<rightharpoonup> 32 word) \<Rightarrow> (string \<rightharpoonup> 32 word)" where
  "make_refid_table index [] dictTable = dictTable"
| "make_refid_table index (entry # dict) dictTable =
     make_refid_table (index + 1) dict (dictTable(sm_get entry ''SN'' \<mapsto> word_of_nat index))"

definition AddREFID :: "store \<Rightarrow> Header \<Rightarrow> (string \<rightharpoonup> 32 word)" where
  "AddREFID st header = make_refid_table 0 (map st (SQ header)) Map.empty"

definition AddREFID_aln ::
  "(string \<rightharpoonup> 32 word) shared \<Rightarrow> Alignment \<Rightarrow> (string \<rightharpoonup> 32 word) shared \<times> Alignment \<times> bool" where
  "AddREFID_aln sh aln =
     (let value = (case sh_env sh (RNAME aln) of Some v \<Rightarrow> v | None \<Rightarrow> - 1)
      in (sh, SetREFID aln value, True))"

section \<open>Vocabulary of the specification\<close>

text \<open>
  The sequence names of a dictionary, the prior index of a name (its first position in
  the old dictionary), and the prior indices of the names of a new dictionary that
  occur in the old one, in the order of the new dictionary.
\<close>

definition SN_values :: "store \<Rightarrow> addr list \<Rightarrow> string list" where
  "SN_values st dict = map (\<lambda>a. sm_get (st a) ''SN'') dict"

definition prior_index :: "string list \<Rightarrow> string \<Rightarrow> int" where
  "prior_index names sn = int (length (takeWhile (\<lambda>n. n \<noteq> sn) names))"

definition matched_prior_indices :: "string list \<Rightarrow> string list \<Rightarrow> int list" where
  "matched_prior_indices old_names new_names =
     map (prior_index old_names) (filter (\<lambda>sn. sn \<in> set old_names) new_names)"

section \<open>Example inputs and further vocabulary\<close>

text \<open>
  The dictionary of the specification's example: three sequences \<open>chr1\<close>, \<open>chr2\<close>,
  \<open>chr3\<close> at the addresses 0, 1 and 2, in a header that is sorted by coordinate. A
  fourth sequence \<open>chrM\<close> at address 3 is not part of the header's dictionary.
\<close>

definition ex_store :: store where
  "ex_store = (\<lambda>a. Map.empty)
     (0 := [''SN'' \<mapsto> ''chr1''], 1 := [''SN'' \<mapsto> ''chr2''], 2 := [''SN'' \<mapsto> ''chr3''],
      3 := [''SN'' \<mapsto> ''chrM''])"

definition ex_header :: Header where
  "ex_header = \<lparr>HD = [''SO'' \<mapsto> ''coordinate''], SQ = [0, 1, 2], RG = [], PG = [],
     UserRecords = Map.empty\<rparr>"

definition ex_aln :: Alignment where
  "ex_aln = \<lparr>FLAG = 0, POS = 1, RNAME = ''chr1'', RNEXT = ''='', CIGAR = ''10M'',
     TAGS = Map.empty, REFID = - 1\<rparr>"

definition ex_shared :: "unit shared" where
  "ex_shared = \<lparr>sh_store = ex_store, sh_header = ex_header, sh_env = ()\<rparr>"

text \<open>The dictionary \<open>[chrA, chrB]\<close> of the specification's example for \<^verbatim>\<open>AddREFID\<close>.\<close>

definition ex_AB_store :: store where
  "ex_AB_store = (\<lambda>a. Map.empty)(0 := [''SN'' \<mapsto> ''chrA''], 1 := [''SN'' \<mapsto> ''chrB''])"

definition ex_AB_header :: Header where
  "ex_AB_header = \<lparr>HD = Map.empty, SQ = [0, 1], RG = [], PG = [], UserRecords = Map.empty\<rparr>"

text \<open>An entry with its sequence name prefixed once; an entry without \<^verbatim>\<open>SN\<close> is left alone.\<close>

definition prefix_SN :: "StringMap \<Rightarrow> StringMap" where
  "prefix_SN entry =
     (case entry ''SN'' of Some sn \<Rightarrow> entry(''SN'' \<mapsto> ''chr'' @ sn) | None \<Rightarrow> entry)"

text \<open>A dictionary with the names \<open>1\<close> and \<open>X\<close>; the object at address 2 has no \<^verbatim>\<open>SN\<close>.\<close>

definition ex_num_store :: store where
  "ex_num_store = (\<lambda>a. Map.empty)
     (0 := [''SN'' \<mapsto> ''1''], 1 := [''SN'' \<mapsto> ''X''], 2 := [''LN'' \<mapsto> ''100''])"

definition ex_num_header :: Header where
  "ex_num_header = \<lparr>HD = Map.empty, SQ = [0, 1], RG = [], PG = [], UserRecords = Map.empty\<rparr>"

text \<open>
  The five optional fields with the values of an exact match, and the condition that
  each of the five fields that is present holds an \<^verbatim>\<open>int32\<close>.
\<close>

definition exact_tags :: "Alignment \<Rightarrow> bool" where
  "exact_tags aln =
     (TAGS aln X0 = Some (VInt32 1) \<and> TAGS aln X1 = Some (VInt32 0) \<and>
      TAGS aln XM = Some (VInt32 0) \<and> TAGS aln XO = Some (VInt32 0) \<and>
      TAGS aln XG = Some (VInt32 0))"

definition is_int32 :: "tag_value \<Rightarrow> bool" where
  "is_int32 v = (case v of VInt32 x \<Rightarrow> True | _ \<Rightarrow> False)"

definition int32_or_absent :: "Alignment \<Rightarrow> string \<Rightarrow> bool" where
  "int32_or_absent aln key = (case TAGS aln key of None \<Rightarrow> True | Some v \<Rightarrow> is_int32 v)"

definition exactness_tags_typed :: "Alignment \<Rightarrow> bool" where
  "exactness_tags_typed aln =
     (int32_or_absent aln X0 \<and> int32_or_absent aln X1 \<and> int32_or_absent aln XM \<and>
      int32_or_absent aln XO \<and> int32_or_absent aln XG)"

text \<open>
  Alignments with all five fields exact, with a string in \<^verbatim>\<open>X0\<close>, without \<^verbatim>\<open>XG\<close>,
  and with \<^verbatim>\<open>X0 = 2\<close>.
\<close>

definition ex_exact_aln :: Alignment where
  "ex_exact_aln = ex_aln\<lparr>TAGS := [''X0'' \<mapsto> VInt32 1, ''X1'' \<mapsto> VInt32 0, ''XM'' \<mapsto> VInt32 0,
     ''XO'' \<mapsto> VInt32 0, ''XG'' \<mapsto> VInt32 0]\<rparr>"

definition ex_string_aln :: Alignment where
  "ex_string_aln = ex_aln\<lparr>TAGS := [''X0'' \<mapsto> VString ''1'']\<rparr>"

definition ex_missing_aln :: Alignment where
  "ex_missing_aln = ex_aln\<lparr>TAGS := [''X0'' \<mapsto> VInt32 1, ''X1'' \<mapsto> VInt32 0, ''XM'' \<mapsto> VInt32 0,
     ''XO'' \<mapsto> VInt32 0]\<rparr>"

definition ex_mismatch_aln :: Alignment where
  "ex_mismatch_aln = ex_aln\<lparr>TAGS := [''X0'' \<mapsto> VInt32 2, ''X1'' \<mapsto> VInt32 0, ''XM'' \<mapsto> VInt32 0,
     ''XO'' \<mapsto> VInt32 0, ''XG'' \<mapsto> VInt32 0]\<rparr>"

text \<open>
  A header with one program record \<open>elprep\<close>; a second object with the same identifier
  at address 1, one with the identifier \<open>bwa\<close> at address 2; and two sequences of
  random draws.
\<close>

definition ex_pg_store :: store where
  "ex_pg_store = (\<lambda>a. Map.empty)
     (0 := [''ID'' \<mapsto> ''elprep''], 1 := [''ID'' \<mapsto> ''elprep''], 2 := [''ID'' \<mapsto> ''bwa''])"

definition ex_pg_header :: Header where
  "ex_pg_header = \<lparr>HD = Map.empty, SQ = [], RG = [], PG = [0], UserRecords = Map.empty\<rparr>"

definition ex_draws_5 :: "nat \<Rightarrow> nat" where
  "ex_draws_5 k = 5"

definition ex_draws_4660 :: "nat \<Rightarrow> nat" where
  "ex_draws_4660 k = 4660"

section \<open>Unmapped reads\<close>

lemma mask_bit: "(w AND 2 ^ n = 0) = (\<not> bit w n)" for w :: "16 word"
  by (rule and_exp_eq_0_iff_not_bit)

lemma mask_4: "push_bit 2 1 = (4 :: 16 word)"
  by simp

text \<open>
  Claim C7. With \<^verbatim>\<open>Unmapped\<close> the mask of bit \<open>n\<close> of \<^verbatim>\<open>FLAG\<close>, the filter of
  \<^verbatim>\<open>FilterUnmappedReads\<close> excludes an alignment exactly when that bit is set, and the
  filter of \<^verbatim>\<open>FilterUnmappedReadsStrict\<close> excludes it exactly when the bit is set, or
  \<^verbatim>\<open>POS\<close> is 0, or \<^verbatim>\<open>RNAME\<close> is \<^verbatim>\<open>*\<close>. Neither changes the alignment.
\<close>

theorem FilterUnmappedReads_excludes_iff:
  "(\<not> snd (snd (FilterUnmappedReads_aln (push_bit n 1) sh aln)) \<longleftrightarrow> bit (FLAG aln) n)
   \<and> (\<not> snd (snd (FilterUnmappedReadsStrict_aln (push_bit n 1) sh aln)) \<longleftrightarrow>
        (bit (FLAG aln) n \<or> POS aln = 0 \<or> RNAME aln = ''*''))
   \<and> fst (snd (FilterUnmappedReads_aln (push_bit n 1) sh aln)) = aln
   \<and> fst (snd (FilterUnmappedReadsStrict_aln (push_bit n 1) sh aln)) = aln"
  by (simp add: FilterUnmappedReads_aln_def FilterUnmappedReadsStrict_aln_def mask_bit)

theorem FilterUnmappedReads_excludes_iff_witness:
  "\<not> snd (snd (FilterUnmappedReads_aln 4 ex_shared (ex_aln\<lparr>FLAG := 4\<rparr>)))
   \<and> snd (snd (FilterUnmappedReads_aln 4 ex_shared ex_aln))
   \<and> \<not> snd (snd (FilterUnmappedReadsStrict_aln 4 ex_shared (ex_aln\<lparr>POS := 0\<rparr>)))
   \<and> \<not> snd (snd (FilterUnmappedReadsStrict_aln 4 ex_shared (ex_aln\<lparr>RNAME := ''*''\<rparr>)))
   \<and> snd (snd (FilterUnmappedReadsStrict_aln 4 ex_shared ex_aln))"
  using FilterUnmappedReads_excludes_iff [of 2 ex_shared "ex_aln\<lparr>FLAG := 4\<rparr>", unfolded mask_4]
    FilterUnmappedReads_excludes_iff [of 2 ex_shared ex_aln, unfolded mask_4]
    FilterUnmappedReads_excludes_iff [of 2 ex_shared "ex_aln\<lparr>POS := 0\<rparr>", unfolded mask_4]
    FilterUnmappedReads_excludes_iff [of 2 ex_shared "ex_aln\<lparr>RNAME := ''*''\<rparr>", unfolded mask_4]
  by (simp add: ex_aln_def)

section \<open>The replaced dictionary and its filter\<close>

lemma make_dictTable_apply:
  "make_dictTable dict t k =
     (if k \<in> (\<lambda>e. sm_get e ''SN'') ` set dict then Some True else t k)"
  by (induction dict arbitrary: t) auto

text \<open>
  Claim C3. After the header phase of \<^verbatim>\<open>ReplaceReferenceSequenceDictionary\<close> the header's
  \<^verbatim>\<open>SQ\<close> is the given dictionary, and the returned filter, run on the captured table in
  any later store and header, keeps an alignment exactly when its \<^verbatim>\<open>RNAME\<close> is the
  \<^verbatim>\<open>SN\<close> value of an entry of the dictionary (the value that \<^verbatim>\<open>entry["SN"]\<close> reads at
  the header phase); every other \<^verbatim>\<open>RNAME\<close>, such as \<^verbatim>\<open>*\<close>, is dropped. It does not
  change the alignment.
\<close>

theorem ReplaceReferenceSequenceDictionary_SQ_and_filter:
  "SQ (fst (ReplaceReferenceSequenceDictionary dict st header)) = dict
   \<and> snd (snd (ReplaceReferenceSequenceDictionary_aln
         \<lparr>sh_store = st', sh_header = header',
          sh_env = snd (ReplaceReferenceSequenceDictionary dict st header)\<rparr> aln))
       = (RNAME aln \<in> set (SN_values st dict))
   \<and> fst (snd (ReplaceReferenceSequenceDictionary_aln
         \<lparr>sh_store = st', sh_header = header',
          sh_env = snd (ReplaceReferenceSequenceDictionary dict st header)\<rparr> aln)) = aln"
  by (auto simp: ReplaceReferenceSequenceDictionary_def ReplaceReferenceSequenceDictionary_aln_def
      Let_def make_dictTable_apply SN_values_def)

theorem ReplaceReferenceSequenceDictionary_SQ_and_filter_witness:
  "SQ (fst (ReplaceReferenceSequenceDictionary [1, 0] ex_store ex_header)) = [1, 0]
   \<and> snd (snd (ReplaceReferenceSequenceDictionary_aln
         \<lparr>sh_store = ex_store, sh_header = ex_header,
          sh_env = snd (ReplaceReferenceSequenceDictionary [1, 0] ex_store ex_header)\<rparr> ex_aln))
   \<and> \<not> snd (snd (ReplaceReferenceSequenceDictionary_aln
         \<lparr>sh_store = ex_store, sh_header = ex_header,
          sh_env = snd (ReplaceReferenceSequenceDictionary [1, 0] ex_store ex_header)\<rparr>
         (ex_aln\<lparr>RNAME := ''*''\<rparr>)))
   \<and> \<not> snd (snd (ReplaceReferenceSequenceDictionary_aln
         \<lparr>sh_store = ex_store, sh_header = ex_header,
          sh_env = snd (ReplaceReferenceSequenceDictionary [1, 0] ex_store ex_header)\<rparr>
         (ex_aln\<lparr>RNAME := ''chr3''\<rparr>)))"
  using ReplaceReferenceSequenceDictionary_SQ_and_filter
      [of "[1, 0]" ex_store ex_header ex_store ex_header ex_aln]
    ReplaceReferenceSequenceDictionary_SQ_and_filter
      [of "[1, 0]" ex_store ex_header ex_store ex_header "ex_aln\<lparr>RNAME := ''*''\<rparr>"]
    ReplaceReferenceSequenceDictionary_SQ_and_filter
      [of "[1, 0]" ex_store ex_header ex_store ex_header "ex_aln\<lparr>RNAME := ''chr3''\<rparr>"]
  by (simp add: SN_values_def ex_store_def ex_aln_def sm_get_def)

section \<open>Sort order after a dictionary replacement\<close>

lemma Find_SN:
  "Find (map st old) (\<lambda>e. sm_get e ''SN'' = sn) =
     (if sn \<in> set (SN_values st old) then prior_index (SN_values st old) sn else - 1)"
  apply (simp add: Find_eq SN_values_def prior_index_def takeWhile_map comp_def)
  by (auto simp: image_iff)

lemma matched_Cons:
  "matched_prior_indices olds (sn # sns) =
     (if sn \<in> set olds then prior_index olds sn # matched_prior_indices olds sns
      else matched_prior_indices olds sns)"
  by (simp add: matched_prior_indices_def)

lemma SN_values_Cons: "SN_values st (a # dict) = sm_get (st a) ''SN'' # SN_values st dict"
  by (simp add: SN_values_def)

lemma prior_index_nonneg: "0 \<le> prior_index olds sn"
  by (simp add: prior_index_def)

lemma sorted_lt2:
  "sorted_wrt (<) ((x::int) # y # zs) = (x < y \<and> sorted_wrt (<) (y # zs))"
  by (rule sorted_wrt2) (simp add: transp_def)

lemma SetHD_SO_get: "sm_get (HD (SetHD_SO header v)) ''SO'' = v"
  by (simp add: SetHD_SO_def sm_get_def)

text \<open>One round of the loop, by the three cases of its body.\<close>

lemma check_step_absent:
  "sm_get (st a) ''SN'' \<notin> set (SN_values st old) \<Longrightarrow>
   check_sorting_order (map st old) prev (map st (a # dict)) header =
   check_sorting_order (map st old) prev (map st dict) header"
  by (simp add: Find_SN)

lemma check_step_ascending:
  "sm_get (st a) ''SN'' \<in> set (SN_values st old) \<Longrightarrow>
   prev < prior_index (SN_values st old) (sm_get (st a) ''SN'') \<Longrightarrow>
   check_sorting_order (map st old) prev (map st (a # dict)) header =
   check_sorting_order (map st old) (prior_index (SN_values st old) (sm_get (st a) ''SN''))
     (map st dict) header"
  by (simp add: Find_SN prior_index_nonneg)

lemma check_step_violation:
  "sm_get (st a) ''SN'' \<in> set (SN_values st old) \<Longrightarrow>
   \<not> prev < prior_index (SN_values st old) (sm_get (st a) ''SN'') \<Longrightarrow>
   check_sorting_order (map st old) prev (map st (a # dict)) header = SetHD_SO header ''unknown''"
  by (simp add: Find_SN prior_index_nonneg)

lemma check_sorting_order_result:
  "check_sorting_order (map st old) prev (map st dict) header =
     (if sorted_wrt (<) (prev # matched_prior_indices (SN_values st old) (SN_values st dict))
      then header else SetHD_SO header ''unknown'')"
proof (induction dict arbitrary: prev)
  case Nil
  show ?case by (simp add: matched_prior_indices_def SN_values_def)
next
  case (Cons a dict)
  let ?olds = "SN_values st old"
  let ?sn = "sm_get (st a) ''SN''"
  show ?case
  proof (cases "?sn \<in> set ?olds")
    case False
    have m: "matched_prior_indices ?olds (SN_values st (a # dict)) =
             matched_prior_indices ?olds (SN_values st dict)"
      using False by (simp add: SN_values_Cons matched_Cons)
    show ?thesis
      unfolding m check_step_absent [OF False] by (rule Cons.IH)
  next
    case True
    have m: "matched_prior_indices ?olds (SN_values st (a # dict)) =
             prior_index ?olds ?sn # matched_prior_indices ?olds (SN_values st dict)"
      using True by (simp add: SN_values_Cons matched_Cons)
    show ?thesis
    proof (cases "prev < prior_index ?olds ?sn")
      case gt: True
      show ?thesis
        unfolding m check_step_ascending [OF True gt] sorted_lt2 Cons.IH
        using gt by simp
    next
      case le: False
      show ?thesis
        unfolding m check_step_violation [OF True le] sorted_lt2
        using le by simp
    qed
  qed
qed

lemma matched_nonneg: "x \<in> set (matched_prior_indices olds sns) \<Longrightarrow> 0 \<le> x"
  by (auto simp: matched_prior_indices_def prior_index_def)

lemma sorted_minus1:
  "sorted_wrt (<) (- 1 # matched_prior_indices olds sns) = sorted_wrt (<) (matched_prior_indices olds sns)"
  using matched_nonneg [of _ olds sns] by fastforce

lemma check_from_start:
  "check_sorting_order (map st old) (- 1) (map st dict) header =
     (if sorted_wrt (<) (matched_prior_indices (SN_values st old) (SN_values st dict))
      then header else SetHD_SO header ''unknown'')"
  by (simp only: check_sorting_order_result sorted_minus1)

lemma Replace_HD:
  "HD (fst (ReplaceReferenceSequenceDictionary dict st header)) =
     (if sm_get (HD header) ''SO'' = ''coordinate'' \<and>
         \<not> sorted_wrt (<) (matched_prior_indices (SN_values st (SQ header)) (SN_values st dict))
      then (HD header)(''SO'' \<mapsto> ''unknown'') else HD header)"
  by (simp add: ReplaceReferenceSequenceDictionary_def Let_def check_from_start SetHD_SO_def)

lemma matched_append:
  "matched_prior_indices olds (xs @ ys) = matched_prior_indices olds xs @ matched_prior_indices olds ys"
  by (simp add: matched_prior_indices_def)

lemma SN_values_append: "SN_values st (xs @ ys) = SN_values st xs @ SN_values st ys"
  by (simp add: SN_values_def)

lemma matched_filter:
  "matched_prior_indices olds (SN_values st (filter (\<lambda>a. sm_get (st a) ''SN'' \<in> set olds) dict)) =
   matched_prior_indices olds (SN_values st dict)"
  by (induction dict) (simp_all add: matched_prior_indices_def SN_values_def)

text \<open>
  Claim C1. For a header whose \<^verbatim>\<open>SO\<close> is \<^verbatim>\<open>coordinate\<close>, the tag stays
  \<^verbatim>\<open>coordinate\<close> when the prior indices of the names of the new dictionary that occur
  in the old one are strictly increasing, and becomes \<^verbatim>\<open>unknown\<close> otherwise. For any
  other \<^verbatim>\<open>SO\<close> the check is skipped and \<^verbatim>\<open>HD\<close> is left as it is. Once a prefix of
  the new dictionary holds a violation, the entries after it have no effect on \<^verbatim>\<open>HD\<close>;
  and entries whose name is absent from the old dictionary have no effect at all.
\<close>

theorem ReplaceReferenceSequenceDictionary_sort_order:
  "(sm_get (HD header) ''SO'' = ''coordinate'' \<longrightarrow>
      sm_get (HD (fst (ReplaceReferenceSequenceDictionary dict st header))) ''SO'' =
        (if sorted_wrt (<) (matched_prior_indices (SN_values st (SQ header)) (SN_values st dict))
         then ''coordinate'' else ''unknown''))
   \<and> (sm_get (HD header) ''SO'' \<noteq> ''coordinate'' \<longrightarrow>
        HD (fst (ReplaceReferenceSequenceDictionary dict st header)) = HD header)
   \<and> (\<not> sorted_wrt (<) (matched_prior_indices (SN_values st (SQ header)) (SN_values st dict)) \<longrightarrow>
        HD (fst (ReplaceReferenceSequenceDictionary (dict @ rest) st header)) =
        HD (fst (ReplaceReferenceSequenceDictionary dict st header)))
   \<and> HD (fst (ReplaceReferenceSequenceDictionary
          (filter (\<lambda>a. sm_get (st a) ''SN'' \<in> set (SN_values st (SQ header))) dict) st header)) =
       HD (fst (ReplaceReferenceSequenceDictionary dict st header))"
proof -
  have a: "sm_get (HD header) ''SO'' = ''coordinate'' \<Longrightarrow>
      sm_get (HD (fst (ReplaceReferenceSequenceDictionary dict st header))) ''SO'' =
        (if sorted_wrt (<) (matched_prior_indices (SN_values st (SQ header)) (SN_values st dict))
         then ''coordinate'' else ''unknown'')"
    by (simp add: Replace_HD sm_get_def)
  have b: "sm_get (HD header) ''SO'' \<noteq> ''coordinate'' \<Longrightarrow>
        HD (fst (ReplaceReferenceSequenceDictionary dict st header)) = HD header"
    by (simp add: Replace_HD)
  have c: "\<not> sorted_wrt (<) (matched_prior_indices (SN_values st (SQ header)) (SN_values st dict)) \<Longrightarrow>
        HD (fst (ReplaceReferenceSequenceDictionary (dict @ rest) st header)) =
        HD (fst (ReplaceReferenceSequenceDictionary dict st header))"
    by (simp add: Replace_HD SN_values_append matched_append sorted_wrt_append)
  have d: "HD (fst (ReplaceReferenceSequenceDictionary
          (filter (\<lambda>a. sm_get (st a) ''SN'' \<in> set (SN_values st (SQ header))) dict) st header)) =
       HD (fst (ReplaceReferenceSequenceDictionary dict st header))"
    by (simp only: Replace_HD matched_filter)
  from a b c d show ?thesis by blast
qed


lemma ex_names:
  "SN_values ex_store [0, 1, 2] = [''chr1'', ''chr2'', ''chr3'']"
  "SN_values ex_store [1, 0, 2] = [''chr2'', ''chr1'', ''chr3'']"
  "SN_values ex_store [0, 3, 2] = [''chr1'', ''chrM'', ''chr3'']"
  "SN_values ex_store [1, 0] = [''chr2'', ''chr1'']"
  by (simp_all add: SN_values_def ex_store_def sm_get_def)

lemma ex_matched:
  "matched_prior_indices [''chr1'', ''chr2'', ''chr3''] [''chr1'', ''chr2'', ''chr3''] = [0, 1, 2]"
  "matched_prior_indices [''chr1'', ''chr2'', ''chr3''] [''chr2'', ''chr1'', ''chr3''] = [1, 0, 2]"
  "matched_prior_indices [''chr1'', ''chr2'', ''chr3''] [''chr1'', ''chrM'', ''chr3''] = [0, 2]"
  "matched_prior_indices [''chr1'', ''chr2'', ''chr3''] [''chr2'', ''chr1''] = [1, 0]"
  by (simp_all add: matched_prior_indices_def prior_index_def)

theorem ReplaceReferenceSequenceDictionary_sort_order_witness:
  "sm_get (HD ex_header) ''SO'' = ''coordinate''
   \<and> sm_get (HD (fst (ReplaceReferenceSequenceDictionary [0, 1, 2] ex_store ex_header))) ''SO'' = ''coordinate''
   \<and> sm_get (HD (fst (ReplaceReferenceSequenceDictionary [1, 0, 2] ex_store ex_header))) ''SO'' = ''unknown''
   \<and> sm_get (HD (fst (ReplaceReferenceSequenceDictionary [0, 3, 2] ex_store ex_header))) ''SO'' = ''coordinate''
   \<and> HD (fst (ReplaceReferenceSequenceDictionary ([1, 0] @ [2]) ex_store ex_header)) =
       HD (fst (ReplaceReferenceSequenceDictionary [1, 0] ex_store ex_header))
   \<and> sm_get (HD (ex_header\<lparr>HD := [''SO'' \<mapsto> ''queryname'']\<rparr>)) ''SO'' \<noteq> ''coordinate''
   \<and> HD (fst (ReplaceReferenceSequenceDictionary [1, 0, 2] ex_store
         (ex_header\<lparr>HD := [''SO'' \<mapsto> ''queryname'']\<rparr>))) = [''SO'' \<mapsto> ''queryname'']"
proof -
  let ?q = "ex_header\<lparr>HD := [''SO'' \<mapsto> ''queryname'']\<rparr>"
  have so: "sm_get (HD ex_header) ''SO'' = ''coordinate''"
    by (simp add: ex_header_def sm_get_def)
  have sq: "SQ ex_header = [0, 1, 2]"
    by (simp add: ex_header_def)
  have nso: "sm_get (HD ?q) ''SO'' \<noteq> ''coordinate''"
    by (simp add: sm_get_def)
  have c1: "sm_get (HD (fst (ReplaceReferenceSequenceDictionary [0, 1, 2] ex_store ex_header))) ''SO''
      = ''coordinate''"
    using ReplaceReferenceSequenceDictionary_sort_order [of ex_header "[0, 1, 2]" ex_store "[]"] so
    unfolding sq ex_names ex_matched by simp
  have c2: "sm_get (HD (fst (ReplaceReferenceSequenceDictionary [1, 0, 2] ex_store ex_header))) ''SO''
      = ''unknown''"
    using ReplaceReferenceSequenceDictionary_sort_order [of ex_header "[1, 0, 2]" ex_store "[]"] so
    unfolding sq ex_names ex_matched by simp
  have c3: "sm_get (HD (fst (ReplaceReferenceSequenceDictionary [0, 3, 2] ex_store ex_header))) ''SO''
      = ''coordinate''"
    using ReplaceReferenceSequenceDictionary_sort_order [of ex_header "[0, 3, 2]" ex_store "[]"] so
    unfolding sq ex_names ex_matched by simp
  have c4: "HD (fst (ReplaceReferenceSequenceDictionary ([1, 0] @ [2]) ex_store ex_header)) =
       HD (fst (ReplaceReferenceSequenceDictionary [1, 0] ex_store ex_header))"
    using ReplaceReferenceSequenceDictionary_sort_order [of ex_header "[1, 0]" ex_store "[2]"]
    unfolding sq ex_names ex_matched by simp
  have c5: "HD (fst (ReplaceReferenceSequenceDictionary [1, 0, 2] ex_store ?q)) =
       [''SO'' \<mapsto> ''queryname'']"
    using ReplaceReferenceSequenceDictionary_sort_order [of ?q "[1, 0, 2]" ex_store "[]"] nso
    by simp
  from so c1 c2 c3 c4 nso c5 show ?thesis by blast
qed

section \<open>Reference identifiers of alignments\<close>

lemma make_refid_table_absent:
  "k \<notin> (\<lambda>e. sm_get e ''SN'') ` set es \<Longrightarrow> make_refid_table idx es t k = t k"
  by (induction es arbitrary: idx t) auto

lemma make_refid_table_last:
  "i < length es \<Longrightarrow> sm_get (es ! i) ''SN'' = k \<Longrightarrow>
   (\<forall>j. i < j \<and> j < length es \<longrightarrow> sm_get (es ! j) ''SN'' \<noteq> k) \<Longrightarrow>
   make_refid_table idx es t k = Some (word_of_nat (idx + i))"
proof (induction es arbitrary: idx t i)
  case Nil
  then show ?case by simp
next
  case (Cons e es)
  show ?case
  proof (cases i)
    case 0
    have "k \<notin> (\<lambda>e. sm_get e ''SN'') ` set es"
    proof
      assume "k \<in> (\<lambda>e. sm_get e ''SN'') ` set es"
      then obtain j where "j < length es" "sm_get (es ! j) ''SN'' = k"
        by (auto simp: in_set_conv_nth)
      with Cons.prems(3) [rule_format, of "Suc j"] 0 show False by simp
    qed
    with 0 Cons.prems(2) show ?thesis
      by (simp add: make_refid_table_absent)
  next
    case (Suc i')
    have "make_refid_table (idx + 1) es (t(sm_get e ''SN'' \<mapsto> word_of_nat idx)) k =
          Some (word_of_nat (idx + 1 + i'))"
    proof (rule Cons.IH)
      show "i' < length es" using Cons.prems(1) Suc by simp
      show "sm_get (es ! i') ''SN'' = k" using Cons.prems(2) Suc by simp
      show "\<forall>j. i' < j \<and> j < length es \<longrightarrow> sm_get (es ! j) ''SN'' \<noteq> k"
        using Cons.prems(3) [rule_format, of "Suc j" for j] Suc by simp
    qed
    with Suc show ?thesis by simp
  qed
qed

lemma make_refid_table_distinct:
  assumes "i < length es" "distinct (map (\<lambda>e. sm_get e ''SN'') es)"
  shows "make_refid_table 0 es t (sm_get (es ! i) ''SN'') = Some (word_of_nat i)"
proof -
  have "\<forall>j. i < j \<and> j < length es \<longrightarrow> sm_get (es ! j) ''SN'' \<noteq> sm_get (es ! i) ''SN''"
    using assms by (auto simp: distinct_conv_nth)
  from make_refid_table_last [OF assms(1) refl this, of 0 t] show ?thesis by simp
qed


lemma sint_index: "i < 2 ^ 31 \<Longrightarrow> sint (word_of_nat i :: 32 word) = int i"
  by (simp add: signed_of_nat signed_take_bit_int_eq_self)

lemma nth_SN_values:
  "i < length dict \<Longrightarrow> SN_values st dict ! i = sm_get (map st dict ! i) ''SN''"
  by (simp add: SN_values_def)

lemma SN_values_map: "SN_values st dict = map (\<lambda>e. sm_get e ''SN'') (map st dict)"
  by (simp add: SN_values_def comp_def)

text \<open>
  Claim C5. The filter of \<^verbatim>\<open>AddREFID\<close>, run on the table built from the header's
  \<^verbatim>\<open>SQ\<close>, keeps every alignment and changes nothing of it but \<^verbatim>\<open>REFID\<close>. It sets
  \<^verbatim>\<open>REFID\<close> to \<open>-1\<close> when \<^verbatim>\<open>RNAME\<close> is the name of no entry, and, the names of
  \<^verbatim>\<open>SQ\<close> being unique, to the index \<open>i\<close> of the entry named \<^verbatim>\<open>RNAME\<close> (as an
  \<^verbatim>\<open>int32\<close>: the index itself below \<open>2^31\<close>).
\<close>

theorem AddREFID_index:
  "snd (snd (AddREFID_aln \<lparr>sh_store = st', sh_header = header', sh_env = AddREFID st header\<rparr> aln))
   \<and> fst (snd (AddREFID_aln
          \<lparr>sh_store = st', sh_header = header', sh_env = AddREFID st header\<rparr> aln)) =
       aln\<lparr>REFID := REFID (fst (snd (AddREFID_aln
          \<lparr>sh_store = st', sh_header = header', sh_env = AddREFID st header\<rparr> aln)))\<rparr>
   \<and> (RNAME aln \<notin> set (SN_values st (SQ header)) \<longrightarrow>
        REFID (fst (snd (AddREFID_aln
          \<lparr>sh_store = st', sh_header = header', sh_env = AddREFID st header\<rparr> aln))) = - 1)
   \<and> (distinct (SN_values st (SQ header)) \<and> i < length (SQ header) \<and>
        SN_values st (SQ header) ! i = RNAME aln \<longrightarrow>
        REFID (fst (snd (AddREFID_aln
          \<lparr>sh_store = st', sh_header = header', sh_env = AddREFID st header\<rparr> aln))) = word_of_nat i
        \<and> (i < 2 ^ 31 \<longrightarrow>
           sint (REFID (fst (snd (AddREFID_aln
             \<lparr>sh_store = st', sh_header = header', sh_env = AddREFID st header\<rparr> aln)))) = int i))"
proof -
  let ?r = "AddREFID_aln \<lparr>sh_store = st', sh_header = header', sh_env = AddREFID st header\<rparr> aln"
  have keep: "snd (snd ?r)"
    by (simp add: AddREFID_aln_def)
  have frame: "fst (snd ?r) = aln\<lparr>REFID := REFID (fst (snd ?r))\<rparr>"
    by (simp add: AddREFID_aln_def SetREFID_def)
  have absent: "REFID (fst (snd ?r)) = - 1" if "RNAME aln \<notin> set (SN_values st (SQ header))"
  proof -
    have "AddREFID st header (RNAME aln) = None"
      using that by (simp add: AddREFID_def make_refid_table_absent SN_values_def image_comp comp_def)
    then show ?thesis by (simp add: AddREFID_aln_def SetREFID_def)
  qed
  have present: "REFID (fst (snd ?r)) = word_of_nat i"
    if d: "distinct (SN_values st (SQ header))" and i: "i < length (SQ header)"
      and n: "SN_values st (SQ header) ! i = RNAME aln"
  proof -
    have "AddREFID st header (sm_get (map st (SQ header) ! i) ''SN'') = Some (word_of_nat i)"
      unfolding AddREFID_def
      using i d by (intro make_refid_table_distinct) (simp_all add: SN_values_map)
    then have "AddREFID st header (RNAME aln) = Some (word_of_nat i)"
      using n i by (simp add: nth_SN_values)
    then show ?thesis by (simp add: AddREFID_aln_def SetREFID_def)
  qed
  show ?thesis
    using keep frame absent present sint_index [of i] by metis
qed

lemma ex_AB_names: "SN_values ex_AB_store (SQ ex_AB_header) = [''chrA'', ''chrB'']"
  by (simp add: SN_values_def ex_AB_store_def ex_AB_header_def sm_get_def)

theorem AddREFID_index_witness:
  "REFID (fst (snd (AddREFID_aln
      \<lparr>sh_store = ex_AB_store, sh_header = ex_AB_header, sh_env = AddREFID ex_AB_store ex_AB_header\<rparr>
      (ex_aln\<lparr>RNAME := ''chrA''\<rparr>)))) = 0
   \<and> REFID (fst (snd (AddREFID_aln
      \<lparr>sh_store = ex_AB_store, sh_header = ex_AB_header, sh_env = AddREFID ex_AB_store ex_AB_header\<rparr>
      (ex_aln\<lparr>RNAME := ''chrB''\<rparr>)))) = 1
   \<and> REFID (fst (snd (AddREFID_aln
      \<lparr>sh_store = ex_AB_store, sh_header = ex_AB_header, sh_env = AddREFID ex_AB_store ex_AB_header\<rparr>
      (ex_aln\<lparr>RNAME := ''chrC''\<rparr>)))) = - 1
   \<and> distinct (SN_values ex_AB_store (SQ ex_AB_header))"
proof -
  have d: "distinct (SN_values ex_AB_store (SQ ex_AB_header))"
    by (simp add: ex_AB_names)
  have l: "length (SQ ex_AB_header) = 2"
    by (simp add: ex_AB_header_def)
  have a: "REFID (fst (snd (AddREFID_aln
      \<lparr>sh_store = ex_AB_store, sh_header = ex_AB_header, sh_env = AddREFID ex_AB_store ex_AB_header\<rparr>
      (ex_aln\<lparr>RNAME := ''chrA''\<rparr>)))) = 0"
    using AddREFID_index [of ex_AB_store ex_AB_header ex_AB_store ex_AB_header
        "ex_aln\<lparr>RNAME := ''chrA''\<rparr>" 0] d l
    by (simp add: ex_AB_names)
  have b: "REFID (fst (snd (AddREFID_aln
      \<lparr>sh_store = ex_AB_store, sh_header = ex_AB_header, sh_env = AddREFID ex_AB_store ex_AB_header\<rparr>
      (ex_aln\<lparr>RNAME := ''chrB''\<rparr>)))) = 1"
    using AddREFID_index [of ex_AB_store ex_AB_header ex_AB_store ex_AB_header
        "ex_aln\<lparr>RNAME := ''chrB''\<rparr>" 1] d l
    by (simp add: ex_AB_names)
  have c: "REFID (fst (snd (AddREFID_aln
      \<lparr>sh_store = ex_AB_store, sh_header = ex_AB_header, sh_env = AddREFID ex_AB_store ex_AB_header\<rparr>
      (ex_aln\<lparr>RNAME := ''chrC''\<rparr>)))) = - 1"
    using AddREFID_index [of ex_AB_store ex_AB_header ex_AB_store ex_AB_header
        "ex_aln\<lparr>RNAME := ''chrC''\<rparr>" 0]
    by (simp add: ex_AB_names)
  from a b c d show ?thesis by blast
qed

section \<open>Renamed chromosomes\<close>

lemma rename_SQ_Cons:
  "rename_SQ (entry # rest) st = rename_SQ rest (st(entry := prefix_SN (st entry)))"
  by (simp add: prefix_SN_def split: option.split)

lemma rename_SQ_count:
  "rename_SQ entries st a = (prefix_SN ^^ count_list entries a) (st a)"
proof (induction entries arbitrary: st)
  case Nil
  show ?case by simp
next
  case (Cons e entries)
  show ?case
    unfolding rename_SQ_Cons Cons.IH
    by (simp add: funpow_swap1)
qed

lemma count_list_distinct:
  "distinct xs \<Longrightarrow> count_list xs a = (if a \<in> set xs then 1 else 0)"
  by (induction xs) auto

lemma rename_SQ_distinct:
  "distinct entries \<Longrightarrow>
   rename_SQ entries st a = (if a \<in> set entries then prefix_SN (st a) else st a)"
  by (simp add: rename_SQ_count count_list_distinct)

lemma unique_SN_distinct_entries: "distinct (SN_values st dict) \<Longrightarrow> distinct dict"
  by (simp add: SN_values_def distinct_map)

text \<open>
  Claim C4. In a header whose \<^verbatim>\<open>SQ\<close> holds no entry twice (as the uniqueness of the
  sequence names demands), the header phase of \<^verbatim>\<open>RenameChromosomes\<close> prefixes the
  \<^verbatim>\<open>SN\<close> of every entry of \<^verbatim>\<open>SQ\<close> with \<open>chr\<close> once and leaves every other object
  alone. The returned filter keeps every alignment, leaves \<^verbatim>\<open>RNAME\<close> (and likewise
  \<^verbatim>\<open>RNEXT\<close>) alone when it is \<^verbatim>\<open>*\<close> or \<^verbatim>\<open>=\<close>, and prefixes it with \<open>chr\<close> once
  otherwise.
\<close>

theorem RenameChromosomes_prefix_once:
  "(distinct (SQ header) \<longrightarrow>
      RenameChromosomes st header a =
        (if a \<in> set (SQ header) then prefix_SN (st a) else st a))
   \<and> RenameChromosomes_aln sh aln =
       (sh,
        aln\<lparr>RNAME := (if RNAME aln = ''*'' \<or> RNAME aln = ''='' then RNAME aln
                       else ''chr'' @ RNAME aln),
            RNEXT := (if RNEXT aln = ''*'' \<or> RNEXT aln = ''='' then RNEXT aln
                       else ''chr'' @ RNEXT aln)\<rparr>,
        True)"
  by (simp add: RenameChromosomes_def rename_SQ_distinct RenameChromosomes_aln_def Let_def)


lemma ex_num_renamed:
  "prefix_SN (ex_num_store 0) = [''SN'' \<mapsto> ''chr1'']"
  "prefix_SN (ex_num_store 1) = [''SN'' \<mapsto> ''chrX'']"
  "prefix_SN (ex_num_store (Suc 0)) = [''SN'' \<mapsto> ''chrX'']"
  by (simp_all add: prefix_SN_def ex_num_store_def)

theorem RenameChromosomes_prefix_once_witness:
  "distinct (SQ ex_num_header)
   \<and> RenameChromosomes ex_num_store ex_num_header 0 = [''SN'' \<mapsto> ''chr1'']
   \<and> RenameChromosomes ex_num_store ex_num_header 1 = [''SN'' \<mapsto> ''chrX'']
   \<and> RenameChromosomes ex_num_store ex_num_header 2 = ex_num_store 2
   \<and> RenameChromosomes_aln ex_shared (ex_aln\<lparr>RNAME := ''1'', RNEXT := ''=''\<rparr>) =
       (ex_shared, ex_aln\<lparr>RNAME := ''chr1'', RNEXT := ''=''\<rparr>, True)
   \<and> RenameChromosomes_aln ex_shared (ex_aln\<lparr>RNAME := ''*'', RNEXT := ''X''\<rparr>) =
       (ex_shared, ex_aln\<lparr>RNAME := ''*'', RNEXT := ''chrX''\<rparr>, True)"
proof -
  have d: "distinct (SQ ex_num_header)"
    by (simp add: ex_num_header_def)
  have s: "set (SQ ex_num_header) = {0, 1}"
    by (auto simp: ex_num_header_def)
  have a0: "RenameChromosomes ex_num_store ex_num_header 0 = [''SN'' \<mapsto> ''chr1'']"
    using RenameChromosomes_prefix_once [of ex_num_header ex_num_store 0 ex_shared ex_aln] d
    by (simp add: s ex_num_renamed)
  have a1: "RenameChromosomes ex_num_store ex_num_header 1 = [''SN'' \<mapsto> ''chrX'']"
    using RenameChromosomes_prefix_once [of ex_num_header ex_num_store 1 ex_shared ex_aln] d
    by (simp add: s ex_num_renamed)
  have a2: "RenameChromosomes ex_num_store ex_num_header 2 = ex_num_store 2"
    using RenameChromosomes_prefix_once [of ex_num_header ex_num_store 2 ex_shared ex_aln] d
    by (simp add: s)
  have r1: "RenameChromosomes_aln ex_shared (ex_aln\<lparr>RNAME := ''1'', RNEXT := ''=''\<rparr>) =
       (ex_shared, ex_aln\<lparr>RNAME := ''chr1'', RNEXT := ''=''\<rparr>, True)"
    using RenameChromosomes_prefix_once [of ex_num_header ex_num_store 0 ex_shared
        "ex_aln\<lparr>RNAME := ''1'', RNEXT := ''=''\<rparr>"]
    by simp
  have r2: "RenameChromosomes_aln ex_shared (ex_aln\<lparr>RNAME := ''*'', RNEXT := ''X''\<rparr>) =
       (ex_shared, ex_aln\<lparr>RNAME := ''*'', RNEXT := ''chrX''\<rparr>, True)"
    using RenameChromosomes_prefix_once [of ex_num_header ex_num_store 0 ex_shared
        "ex_aln\<lparr>RNAME := ''*'', RNEXT := ''X''\<rparr>"]
    by simp
  from d a0 a1 a2 r1 r2 show ?thesis by blast
qed

text \<open>An entry that occurs twice in \<open>SQ\<close> is the same object and is prefixed twice.\<close>

lemma rename_SQ_shared_entry:
  "RenameChromosomes ex_num_store (ex_num_header\<lparr>SQ := [0, 0]\<rparr>) 0 = [''SN'' \<mapsto> ''chrchr1'']"
  by (simp add: RenameChromosomes_def ex_num_store_def)

section \<open>Exact matches by optional fields\<close>

lemma tag_differs_False_iff:
  "tag_differs aln key v = Inr False \<longleftrightarrow> TAGS aln key = Some (VInt32 v)"
  by (auto simp: tag_differs_def split: option.splits tag_value.splits)

lemma tag_differs_typed:
  "int32_or_absent aln key \<Longrightarrow>
   tag_differs aln key v = Inr (TAGS aln key \<noteq> Some (VInt32 v))"
  by (auto simp: tag_differs_def int32_or_absent_def is_int32_def
      split: option.splits tag_value.splits)

lemma tag_differs_panic:
  "TAGS aln key = Some w \<Longrightarrow> \<not> is_int32 w \<Longrightarrow> tag_differs aln key v = Inl TypeAssertionPanic"
  by (auto simp: tag_differs_def is_int32_def split: tag_value.splits)

lemma strict_True_iff:
  "FilterNonExactMappingReadsStrict_aln sh aln = Inr (sh, aln, True) \<longleftrightarrow>
   tag_differs aln X0 1 = Inr False \<and> tag_differs aln X1 0 = Inr False \<and>
   tag_differs aln XM 0 = Inr False \<and> tag_differs aln XO 0 = Inr False \<and>
   tag_differs aln XG 0 = Inr False"
  unfolding FilterNonExactMappingReadsStrict_aln_def
  by (simp split: sum.split)

lemma strict_typed:
  "exactness_tags_typed aln \<Longrightarrow>
   FilterNonExactMappingReadsStrict_aln sh aln = Inr (sh, aln, exact_tags aln)"
  unfolding FilterNonExactMappingReadsStrict_aln_def exactness_tags_typed_def exact_tags_def
  by (simp add: tag_differs_typed)

text \<open>
  Claim C6. The filter of \<^verbatim>\<open>FilterNonExactMappingReadsStrict\<close> returns true exactly when
  all five fields are present with \<^verbatim>\<open>X0 = 1\<close> and \<^verbatim>\<open>X1 = XM = XO = XG = 0\<close>; on an
  alignment whose fields are typed as the record model says, it returns false in every
  other case (a field absent, or present with another value).
\<close>

theorem FilterNonExactMappingReadsStrict_exact:
  "(FilterNonExactMappingReadsStrict_aln sh aln = Inr (sh, aln, True) \<longleftrightarrow> exact_tags aln)
   \<and> (exactness_tags_typed aln \<longrightarrow>
        FilterNonExactMappingReadsStrict_aln sh aln = Inr (sh, aln, exact_tags aln))"
  by (simp add: strict_True_iff tag_differs_False_iff exact_tags_def strict_typed)

text \<open>
  Claim C10. The filter of \<^verbatim>\<open>FilterNonExactMappingReadsStrict\<close> returns a decision when
  each of the five fields that is present holds an \<^verbatim>\<open>int32\<close>; when \<^verbatim>\<open>X0\<close> is present
  with a value of another type, the type assertion panics.
\<close>

theorem FilterNonExactMappingReadsStrict_panics:
  "(exactness_tags_typed aln \<longrightarrow>
      (\<exists>keep. FilterNonExactMappingReadsStrict_aln sh aln = Inr (sh, aln, keep)))
   \<and> (TAGS aln X0 = Some v \<and> \<not> is_int32 v \<longrightarrow>
        FilterNonExactMappingReadsStrict_aln sh aln = Inl TypeAssertionPanic)"
proof -
  have "FilterNonExactMappingReadsStrict_aln sh aln = Inl TypeAssertionPanic"
    if "TAGS aln X0 = Some v" "\<not> is_int32 v"
    unfolding FilterNonExactMappingReadsStrict_aln_def
    by (simp add: tag_differs_panic [OF that])
  then show ?thesis
    by (simp add: strict_typed)
qed


lemmas tag_names = X0_def X1_def XM_def XO_def XG_def

lemma ex_exact_typed: "exactness_tags_typed ex_exact_aln" "exact_tags ex_exact_aln"
  by (simp_all add: exactness_tags_typed_def exact_tags_def int32_or_absent_def is_int32_def
      ex_exact_aln_def tag_names)

lemma ex_missing_typed: "exactness_tags_typed ex_missing_aln" "\<not> exact_tags ex_missing_aln"
  by (simp_all add: exactness_tags_typed_def exact_tags_def int32_or_absent_def is_int32_def
      ex_missing_aln_def tag_names)

lemma ex_mismatch_typed: "exactness_tags_typed ex_mismatch_aln" "\<not> exact_tags ex_mismatch_aln"
  by (simp_all add: exactness_tags_typed_def exact_tags_def int32_or_absent_def is_int32_def
      ex_mismatch_aln_def tag_names)

theorem FilterNonExactMappingReadsStrict_exact_witness:
  "exactness_tags_typed ex_exact_aln
   \<and> FilterNonExactMappingReadsStrict_aln ex_shared ex_exact_aln = Inr (ex_shared, ex_exact_aln, True)
   \<and> exactness_tags_typed ex_missing_aln
   \<and> FilterNonExactMappingReadsStrict_aln ex_shared ex_missing_aln =
       Inr (ex_shared, ex_missing_aln, False)
   \<and> exactness_tags_typed ex_mismatch_aln
   \<and> FilterNonExactMappingReadsStrict_aln ex_shared ex_mismatch_aln =
       Inr (ex_shared, ex_mismatch_aln, False)"
  using FilterNonExactMappingReadsStrict_exact [of ex_shared ex_exact_aln]
    FilterNonExactMappingReadsStrict_exact [of ex_shared ex_missing_aln]
    FilterNonExactMappingReadsStrict_exact [of ex_shared ex_mismatch_aln]
  by (simp add: ex_exact_typed ex_missing_typed ex_mismatch_typed)

lemma ex_string_tag: "TAGS ex_string_aln X0 = Some (VString ''1'')" "\<not> is_int32 (VString ''1'')"
  by (simp_all add: ex_string_aln_def X0_def is_int32_def)

theorem FilterNonExactMappingReadsStrict_panics_witness:
  "exactness_tags_typed ex_exact_aln
   \<and> (\<exists>keep. FilterNonExactMappingReadsStrict_aln ex_shared ex_exact_aln =
        Inr (ex_shared, ex_exact_aln, keep))
   \<and> TAGS ex_string_aln X0 = Some (VString ''1'')
   \<and> \<not> is_int32 (VString ''1'')
   \<and> FilterNonExactMappingReadsStrict_aln ex_shared ex_string_aln = Inl TypeAssertionPanic"
  using FilterNonExactMappingReadsStrict_panics [of ex_exact_aln ex_shared "VString ''1''"]
    FilterNonExactMappingReadsStrict_panics [of ex_string_aln ex_shared "VString ''1''"]
  by (simp add: ex_exact_typed ex_string_tag)

section \<open>The shared state during the record phase\<close>

text \<open>
  Claim C8. Every alignment filter of the module returns the shared state it was given:
  the store of map objects, the header and the captured table or identifier are
  unchanged; only the alignment may differ. The strict exactness filter either panics
  or returns the shared state and the alignment unchanged.
\<close>

theorem AlignmentFilters_frame:
  "fst (ReplaceReferenceSequenceDictionary_aln sh_dict aln) = sh_dict
   \<and> fst (AddOrReplaceReadGroup_aln sh_id aln) = sh_id
   \<and> fst (RenameChromosomes_aln sh aln) = sh
   \<and> fst (AddREFID_aln sh_index aln) = sh_index
   \<and> fst (FilterUnmappedReads_aln Unmapped sh aln) = sh
   \<and> fst (FilterUnmappedReadsStrict_aln Unmapped sh aln) = sh
   \<and> fst (FilterNonExactMappingReads_aln sh aln) = sh
   \<and> fst (FilterDuplicateReads_aln Duplicate sh aln) = sh
   \<and> fst (FilterOptionalReads_aln sh aln) = sh
   \<and> (FilterNonExactMappingReadsStrict_aln sh aln = Inl TypeAssertionPanic \<or>
       (\<exists>keep. FilterNonExactMappingReadsStrict_aln sh aln = Inr (sh, aln, keep)))"
proof -
  have strict: "FilterNonExactMappingReadsStrict_aln sh aln = Inl TypeAssertionPanic \<or>
       (\<exists>keep. FilterNonExactMappingReadsStrict_aln sh aln = Inr (sh, aln, keep))"
    unfolding FilterNonExactMappingReadsStrict_aln_def
    by (auto split: sum.split intro: error.exhaust)
  show ?thesis
    using strict
    by (simp add: ReplaceReferenceSequenceDictionary_aln_def AddOrReplaceReadGroup_aln_def
        RenameChromosomes_aln_def AddREFID_aln_def FilterUnmappedReads_aln_def
        FilterUnmappedReadsStrict_aln_def FilterNonExactMappingReads_aln_def
        FilterDuplicateReads_aln_def FilterOptionalReads_aln_def Let_def)
qed

section \<open>Identifiers of program records\<close>

lemma hex_digits_small: "n < 16 \<Longrightarrow> hex_digits n = [hex_digit n]"
  by simp

lemma hex_digits_large:
  "\<not> n < 16 \<Longrightarrow> hex_digits n = hex_digits (n div 16) @ [hex_digit (n mod 16)]"
  by (subst hex_digits.simps) simp

lemma length_hex_digits:
  "n < 65536 \<Longrightarrow>
   length (hex_digits n) = (if n < 16 then 1 else if n < 256 then 2 else if n < 4096 then 3 else 4)"
proof -
  assume n: "n < 65536"
  have d1: "n div 16 < 4096" using n by simp
  have d2: "n div 16 div 16 < 256" using n by simp
  have d3: "n div 16 div 16 div 16 < 16" using n by simp
  have e1: "(n div 16 < 16) = (n < 256)" by (simp add: div_less_iff_less_mult)
  have e2: "(n div 16 div 16 < 16) = (n < 4096)" by (simp add: div_less_iff_less_mult)
  show ?thesis
  proof (cases "n < 16")
    case True
    then show ?thesis by (simp add: hex_digits_small del: hex_digits.simps)
  next
    case a: False
    show ?thesis
    proof (cases "n < 256")
      case True
      with a e1 show ?thesis
        by (simp add: hex_digits_large [of n] hex_digits_small del: hex_digits.simps)
    next
      case b: False
      show ?thesis
      proof (cases "n < 4096")
        case True
        with a b e1 e2 show ?thesis
          by (simp add: hex_digits_large [of n] hex_digits_large [of "n div 16"] hex_digits_small
              del: hex_digits.simps)
      next
        case c: False
        with a b e1 e2 d3 show ?thesis
          by (simp add: hex_digits_large [of n] hex_digits_large [of "n div 16"]
              hex_digits_large [of "n div 16 div 16"] hex_digits_small del: hex_digits.simps)
      qed
    qed
  qed
qed

lemma hex_digit_range: "d < 16 \<Longrightarrow> hex_digit d \<in> set ''0123456789abcdef''"
  unfolding hex_digit_def by (rule nth_mem) simp

lemma set_hex_digits: "set (hex_digits n) \<subseteq> set ''0123456789abcdef''"
proof (induction n rule: hex_digits.induct)
  case (1 n)
  show ?case
  proof (cases "n < 16")
    case True
    then show ?thesis
      using hex_digit_range [of n] by (simp add: hex_digits_small del: hex_digits.simps)
  next
    case False
    then show ?thesis
      using "1.IH" hex_digit_range [of "n mod 16"]
      by (simp add: hex_digits_large [of n] del: hex_digits.simps)
  qed
qed

lemma unique_id_step:
  "Find pgs (\<lambda>entry. sm_get entry ''ID'' = id') \<ge> 0 \<Longrightarrow>
   unique_id pgs rnd k id' = unique_id pgs rnd (Suc k) (id' @ FormatInt16 (int (rnd k)))"
  by (subst unique_id.simps) simp

lemma unique_id_done:
  "\<not> Find pgs (\<lambda>entry. sm_get entry ''ID'' = id') \<ge> 0 \<Longrightarrow> unique_id pgs rnd k id' = id'"
  by (subst unique_id.simps) simp

lemma unique_id_fresh:
  "Find pgs (\<lambda>entry. sm_get entry ''ID'' = unique_id pgs rnd k id') < 0"
proof (induction pgs rnd k id' rule: unique_id.induct)
  case (1 pgs rnd k id')
  show ?case
  proof (cases "Find pgs (\<lambda>entry. sm_get entry ''ID'' = id') \<ge> 0")
    case True
    then show ?thesis
      using "1.IH" by (simp only: unique_id_step)
  next
    case False
    then show ?thesis
      using unique_id_done [OF False, of rnd k] by simp
  qed
qed

text \<open>
  Claim C9, amended. The string appended to a colliding candidate is
  \<^verbatim>\<open>strconv.FormatInt\<close> of the draw in base 16, without padding: for a draw below
  \<open>0x10000\<close> it has one to four hexadecimal digits, as many as the draw needs. The
  width is not fixed: the draws 5 and 4660 append \<open>5\<close> and \<open>1234\<close>.
\<close>

theorem AddPGLine_suffix_width:
  "(n < 65536 \<longrightarrow>
      length (FormatInt16 (int n)) =
        (if n < 16 then 1 else if n < 256 then 2 else if n < 4096 then 3 else 4)
      \<and> set (FormatInt16 (int n)) \<subseteq> set ''0123456789abcdef'')
   \<and> (Find pgs (\<lambda>entry. sm_get entry ''ID'' = id') \<ge> 0 \<longrightarrow>
        unique_id pgs rnd k id' = unique_id pgs rnd (Suc k) (id' @ FormatInt16 (int (rnd k))))"
  using length_hex_digits [of n] set_hex_digits [of n] unique_id_step [of pgs id' rnd k]
  by (simp add: FormatInt16_def del: hex_digits.simps)


lemma ex_formats:
  "FormatInt16 (int (ex_draws_5 0)) = ''5''" "FormatInt16 (int (ex_draws_4660 0)) = ''1234''"
  by (simp_all add: FormatInt16_def hex_digit_def ex_draws_5_def ex_draws_4660_def)

theorem AddPGLine_suffix_width_counterexample:
  "ex_draws_5 0 < 65536 \<and> ex_draws_4660 0 < 65536
   \<and> FormatInt16 (int (ex_draws_5 0)) = ''5''
   \<and> FormatInt16 (int (ex_draws_4660 0)) = ''1234''
   \<and> unique_id (map ex_pg_store (PG ex_pg_header)) ex_draws_5 0 ''elprep'' = ''elprep'' @ ''5''
   \<and> unique_id (map ex_pg_store (PG ex_pg_header)) ex_draws_4660 0 ''elprep'' = ''elprep'' @ ''1234''
   \<and> length ''5'' \<noteq> length ''1234''"
proof -
  have c: "Find (map ex_pg_store (PG ex_pg_header)) (\<lambda>entry. sm_get entry ''ID'' = ''elprep'') \<ge> 0"
    by (simp add: Find_def ex_pg_store_def ex_pg_header_def sm_get_def)
  have f5: "\<not> Find (map ex_pg_store (PG ex_pg_header)) (\<lambda>entry. sm_get entry ''ID'' = ''elprep5'') \<ge> 0"
    by (simp add: Find_def ex_pg_store_def ex_pg_header_def sm_get_def)
  have f1234: "\<not> Find (map ex_pg_store (PG ex_pg_header)) (\<lambda>entry. sm_get entry ''ID'' = ''elprep1234'') \<ge> 0"
    by (simp add: Find_def ex_pg_store_def ex_pg_header_def sm_get_def)
  have a: "unique_id (map ex_pg_store (PG ex_pg_header)) ex_draws_5 0 ''elprep'' = ''elprep'' @ ''5''"
    using unique_id_step [OF c, of ex_draws_5 0] unique_id_done [OF f5, of ex_draws_5 "Suc 0"]
    by (simp add: ex_formats)
  have b: "unique_id (map ex_pg_store (PG ex_pg_header)) ex_draws_4660 0 ''elprep'' = ''elprep'' @ ''1234''"
    using unique_id_step [OF c, of ex_draws_4660 0] unique_id_done [OF f1234, of ex_draws_4660 "Suc 0"]
    by (simp add: ex_formats)
  from a b show ?thesis
    by (simp add: ex_formats) (simp add: ex_draws_5_def ex_draws_4660_def)
qed

theorem AddPGLine_suffix_width_witness:
  "(5::nat) < 65536 \<and> length (FormatInt16 (int 5)) = 1
   \<and> (4660::nat) < 65536 \<and> length (FormatInt16 (int 4660)) = 4
   \<and> Find (map ex_pg_store (PG ex_pg_header)) (\<lambda>entry. sm_get entry ''ID'' = ''elprep'') \<ge> 0
   \<and> unique_id (map ex_pg_store (PG ex_pg_header)) ex_draws_5 0 ''elprep'' =
       unique_id (map ex_pg_store (PG ex_pg_header)) ex_draws_5 (Suc 0) ''elprep5''"
proof -
  have c: "Find (map ex_pg_store (PG ex_pg_header)) (\<lambda>entry. sm_get entry ''ID'' = ''elprep'') \<ge> 0"
    by (simp add: Find_def ex_pg_store_def ex_pg_header_def sm_get_def)
  have a: "length (FormatInt16 (int 5)) = 1"
    using AddPGLine_suffix_width [of 5 "[]" "[]" ex_draws_5 0] by simp
  have b: "length (FormatInt16 (int 4660)) = 4"
    using AddPGLine_suffix_width [of 4660 "[]" "[]" ex_draws_5 0] by simp
  have d: "unique_id (map ex_pg_store (PG ex_pg_header)) ex_draws_5 0 ''elprep'' =
       unique_id (map ex_pg_store (PG ex_pg_header)) ex_draws_5 (Suc 0) ''elprep5''"
    using AddPGLine_suffix_width [of 5 "map ex_pg_store (PG ex_pg_header)" "''elprep''" ex_draws_5 0] c
    by (simp add: ex_formats del: unique_id.simps)
  from a b c d show ?thesis by simp
qed

lemma set_PP_other:
  "a \<noteq> newPG \<or> key \<noteq> ''PP'' \<Longrightarrow> set_PP allPG rest newPG st a key = st a key"
  by (induction rest) (auto simp: Let_def)

lemma AddPGLine_PG: "PG (snd (AddPGLine newPG rnd st header)) = PG header @ [newPG]"
  by (simp add: AddPGLine_def Let_def)

lemma AddPGLine_ID:
  "sm_get (fst (AddPGLine newPG rnd st header) a) ''ID'' = sm_get (st a) ''ID''"
  by (simp add: AddPGLine_def Let_def sm_get_def set_PP_other)


text \<open>
  Claim C2. The candidate that the collision loop computes differs from the colliding
  identifier, but \<^verbatim>\<open>AddPGLine\<close> appends the record with the identifier it came with:
  whenever the identifier of the new record collides, the program records of the
  resulting header do not have unique identifiers.
\<close>

theorem AddPGLine_keeps_colliding_ID:
  "Find (map st (PG header)) (\<lambda>entry. sm_get entry ''ID'' = sm_get (st newPG) ''ID'') \<ge> 0 \<longrightarrow>
     PG (snd (AddPGLine newPG rnd st header)) = PG header @ [newPG]
     \<and> sm_get (fst (AddPGLine newPG rnd st header) newPG) ''ID'' = sm_get (st newPG) ''ID''
     \<and> unique_id (map st (PG header)) rnd 0 (sm_get (st newPG) ''ID'') \<noteq> sm_get (st newPG) ''ID''
     \<and> \<not> distinct (map (\<lambda>a. sm_get (fst (AddPGLine newPG rnd st header) a) ''ID'')
           (PG (snd (AddPGLine newPG rnd st header))))"
proof
  assume c: "Find (map st (PG header)) (\<lambda>entry. sm_get entry ''ID'' = sm_get (st newPG) ''ID'') \<ge> 0"
  then obtain e where e: "e \<in> set (PG header)" "sm_get (st e) ''ID'' = sm_get (st newPG) ''ID''"
    by (auto simp: Find_nonneg_iff)
  have fresh: "unique_id (map st (PG header)) rnd 0 (sm_get (st newPG) ''ID'') \<noteq> sm_get (st newPG) ''ID''"
  proof
    assume "unique_id (map st (PG header)) rnd 0 (sm_get (st newPG) ''ID'') = sm_get (st newPG) ''ID''"
    with unique_id_fresh [of "map st (PG header)" rnd 0 "sm_get (st newPG) ''ID''"]
    have "Find (map st (PG header)) (\<lambda>entry. sm_get entry ''ID'' = sm_get (st newPG) ''ID'') < 0"
      by simp
    with c show False by simp
  qed
  have dup: "\<not> distinct (map (\<lambda>a. sm_get (st a) ''ID'') (PG header @ [newPG]))"
  proof -
    have "sm_get (st newPG) ''ID'' \<in> (\<lambda>a. sm_get (st a) ''ID'') ` set (PG header)"
      using e by (metis imageI)
    then show ?thesis by simp
  qed
  show "PG (snd (AddPGLine newPG rnd st header)) = PG header @ [newPG]
     \<and> sm_get (fst (AddPGLine newPG rnd st header) newPG) ''ID'' = sm_get (st newPG) ''ID''
     \<and> unique_id (map st (PG header)) rnd 0 (sm_get (st newPG) ''ID'') \<noteq> sm_get (st newPG) ''ID''
     \<and> \<not> distinct (map (\<lambda>a. sm_get (fst (AddPGLine newPG rnd st header) a) ''ID'')
           (PG (snd (AddPGLine newPG rnd st header))))"
    unfolding AddPGLine_PG AddPGLine_ID using fresh dup by simp
qed

lemma ex_pg_collides:
  "Find (map ex_pg_store (PG ex_pg_header)) (\<lambda>entry. sm_get entry ''ID'' = sm_get (ex_pg_store 1) ''ID'') \<ge> 0"
  by (simp add: Find_def ex_pg_store_def ex_pg_header_def sm_get_def)

theorem AddPGLine_keeps_colliding_ID_witness:
  "Find (map ex_pg_store (PG ex_pg_header)) (\<lambda>entry. sm_get entry ''ID'' = sm_get (ex_pg_store 1) ''ID'') \<ge> 0
   \<and> PG (snd (AddPGLine 1 ex_draws_5 ex_pg_store ex_pg_header)) = [0, 1]
   \<and> sm_get (fst (AddPGLine 1 ex_draws_5 ex_pg_store ex_pg_header) 0) ''ID'' = ''elprep''
   \<and> sm_get (fst (AddPGLine 1 ex_draws_5 ex_pg_store ex_pg_header) 1) ''ID'' = ''elprep''
   \<and> \<not> distinct (map (\<lambda>a. sm_get (fst (AddPGLine 1 ex_draws_5 ex_pg_store ex_pg_header) a) ''ID'')
           (PG (snd (AddPGLine 1 ex_draws_5 ex_pg_store ex_pg_header))))"
proof -
  note t = AddPGLine_keeps_colliding_ID [of ex_pg_store ex_pg_header 1 ex_draws_5, rule_format, OF ex_pg_collides]
  have pg: "PG (snd (AddPGLine 1 ex_draws_5 ex_pg_store ex_pg_header)) = [0, 1]"
    using t by (simp add: ex_pg_header_def)
  have i1: "sm_get (fst (AddPGLine 1 ex_draws_5 ex_pg_store ex_pg_header) 1) ''ID'' = ''elprep''"
    using t by (simp add: ex_pg_store_def sm_get_def)
  have i0: "sm_get (fst (AddPGLine 1 ex_draws_5 ex_pg_store ex_pg_header) 0) ''ID'' = ''elprep''"
    by (simp add: AddPGLine_ID) (simp add: ex_pg_store_def sm_get_def)
  from t pg i0 i1 ex_pg_collides show ?thesis by blast
qed

text \<open>After the collision, a further record finds no tail and gets no \<^verbatim>\<open>PP\<close>.\<close>

lemma AddPGLine_twice_after_collision:
  "fst (AddPGLine 2 rnd' (fst (AddPGLine 1 rnd ex_pg_store ex_pg_header))
         (snd (AddPGLine 1 rnd ex_pg_store ex_pg_header))) 2 ''PP'' = None
   \<and> fst (AddPGLine 1 rnd ex_pg_store ex_pg_header) 1 ''PP'' = Some ''elprep''"
  by (simp add: AddPGLine_def Let_def Find_def ex_pg_store_def ex_pg_header_def sm_get_def
      del: unique_id.simps)

end
